theory Spec2Isabelle
  imports Main
begin

section \<open>The factory contract \<open>HelloNear\<close> (src/contract/src/contract.ts)\<close>

text \<open>
  The contract stores the compiled code of another contract and, on request, creates a
  sub-account of itself, funds it, deploys the stored code there and initialises it.
  Strings of the source are \<open>string\<close> (byte lists), BigInt values are \<open>int\<close>, a thrown
  Error is the \<open>Inl\<close> branch of a sum, and the effects of one call (return value, log
  lines, contract state) are collected in a record.
\<close>

subsection \<open>Module constants\<close>

definition NEAR_PER_STORAGE :: int where
  "NEAR_PER_STORAGE = 10 ^ 19"

definition TGAS :: int where
  "TGAS = 10 ^ 12"

definition NO_DEPOSIT :: int where
  "NO_DEPOSIT = 0"

text \<open>The sign of the yocto unit in the messages, U+24C3, as its three UTF-8 bytes.\<close>

definition yocto_sign :: string where
  "yocto_sign = [CHR 0xE2, CHR 0x93, CHR 0x83]"

subsection \<open>Template literals: decimal text of a BigInt\<close>

definition digit_char :: "nat \<Rightarrow> char" where
  "digit_char d = ''0123456789'' ! d"

fun string_of_nat :: "nat \<Rightarrow> string" where
  "string_of_nat n =
     (if n < 10 then [digit_char n]
      else string_of_nat (n div 10) @ [digit_char (n mod 10)])"

declare string_of_nat.simps [simp del]

definition string_of_bigint :: "int \<Rightarrow> string" where
  "string_of_bigint i =
     (if i < 0 then CHR ''-'' # string_of_nat (nat (- i)) else string_of_nat (nat i))"

subsection \<open>Promises of the SDK\<close>

datatype PublicKey = PublicKey (data: string)

text \<open>
  The actions the contract puts into a batch. A function call carries the method name,
  the serialised arguments, the attached amount and the gas.
\<close>

datatype PromiseAction =
    CreateAccount
  | Transfer int
  | DeployContract string
  | FunctionCall string string int int
  | AddFullAccessKey PublicKey

text \<open>
  A promise is a batch of actions against one account; \<open>after\<close> is the promise it has
  been chained behind with \<open>then\<close>, if any.
\<close>

datatype NearPromise =
  NearPromise (account_id: string) (actions: "PromiseAction list") (after: "NearPromise option")

definition NearPromise_new :: "string \<Rightarrow> NearPromise" where
  "NearPromise_new accountId = NearPromise accountId [] None"

definition addAction :: "PromiseAction \<Rightarrow> NearPromise \<Rightarrow> NearPromise" where
  "addAction a p = NearPromise (account_id p) (actions p @ [a]) (after p)"

definition createAccount :: "NearPromise \<Rightarrow> NearPromise" where
  "createAccount p = addAction CreateAccount p"

definition transfer :: "int \<Rightarrow> NearPromise \<Rightarrow> NearPromise" where
  "transfer amount p = addAction (Transfer amount) p"

definition deployContract :: "string \<Rightarrow> NearPromise \<Rightarrow> NearPromise" where
  "deployContract c p = addAction (DeployContract c) p"

definition functionCall :: "string \<Rightarrow> string \<Rightarrow> int \<Rightarrow> int \<Rightarrow> NearPromise \<Rightarrow> NearPromise" where
  "functionCall functionName args amount gas p =
     addAction (FunctionCall functionName args amount gas) p"

definition addFullAccessKey :: "PublicKey \<Rightarrow> NearPromise \<Rightarrow> NearPromise" where
  "addFullAccessKey k p = addAction (AddFullAccessKey k) p"

text \<open>\<open>p.then(other)\<close> schedules \<open>other\<close> behind \<open>p\<close> and returns \<open>other\<close>.\<close>

definition then_promise :: "NearPromise \<Rightarrow> NearPromise \<Rightarrow> NearPromise" where
  "then_promise p other = NearPromise (account_id other) (actions other) (Some p)"

subsection \<open>What the contract takes from outside its source file\<close>

text \<open>The objects handed to \<open>serialize\<close>: the init arguments and the callback arguments.\<close>

datatype jsvalue =
    JString string
  | JBigInt int
  | JObject "(string \<times> jsvalue) list"

text \<open>
  Parameters of the development: the bytes of the file included as \<open>DEFAULT_CONTRACT\<close>,
  and the three SDK functions the contract calls whose results it depends on. The
  constructor of the SDK's \<open>PublicKey\<close> class may reject a key string (\<open>None\<close>).
\<close>

record externals =
  DEFAULT_CONTRACT :: string
  validateAccountId :: "string \<Rightarrow> bool"
  serialize :: "jsvalue \<Rightarrow> string"
  new_PublicKey :: "string \<Rightarrow> PublicKey option"

text \<open>The status the host reports for the result of a promise.\<close>

datatype PromiseResult = NotReady | Successful string | Failed

text \<open>The context of one call, as read through the \<open>near\<close> API.\<close>

record env =
  currentAccountId :: string
  predecessorAccountId :: string
  attachedDeposit :: int
  input :: string
  promise_result_status :: "nat \<Rightarrow> PromiseResult"

datatype error =
    FunctionIsPrivate
  | FunctionIsNotPayable
  | AssertionFailed string
  | InvalidPublicKey
  | PromiseNotReady
  | PromiseFailed

text \<open>\<open>near.promiseResult(i)\<close> returns the value of a successful promise and throws otherwise.\<close>

definition promiseResult :: "env \<Rightarrow> nat \<Rightarrow> error + string" where
  "promiseResult e i =
     (case promise_result_status e i of
        Successful v \<Rightarrow> Inr v
      | NotReady \<Rightarrow> Inl PromiseNotReady
      | Failed \<Rightarrow> Inl PromiseFailed)"

subsection \<open>The contract\<close>

record HelloNear =
  code :: string

definition HelloNear_init :: "externals \<Rightarrow> HelloNear" where
  "HelloNear_init ext = \<lparr>code = DEFAULT_CONTRACT ext\<rparr>"

datatype return_value =
    RetVoid
  | RetBool bool
  | RetString string
  | RetPromise NearPromise

record outcome =
  returned :: return_value
  logs :: "string list"
  state :: HelloNear

text \<open>
  The decorator \<open>@call({privateFunction, payableFunction})\<close>, both options false when
  left out: a private method throws unless the contract calls itself, a method that is
  not payable throws when an amount is attached, and otherwise the method runs.
\<close>

definition call_decorator :: "bool \<Rightarrow> bool \<Rightarrow> env \<Rightarrow> (error + outcome) \<Rightarrow> error + outcome" where
  "call_decorator privateFunction payableFunction e originalMethod =
     (if privateFunction \<and> predecessorAccountId e \<noteq> currentAccountId e then Inl FunctionIsPrivate
      else if \<not> payableFunction \<and> 0 < attachedDeposit e then Inl FunctionIsNotPayable
      else originalMethod)"

text \<open>\<open>try { ... } catch { ... }\<close>: whatever the block throws is handled.\<close>

definition try_catch :: "(error + outcome) \<Rightarrow> (error + outcome) \<Rightarrow> error + outcome" where
  "try_catch block handler = (case block of Inl _ \<Rightarrow> handler | Inr r \<Rightarrow> Inr r)"

text \<open>
  \<open>update_stored_contract\<close> (lines 27 to 37) reads the raw input of the call, asserts
  that it is not empty and stores it as the code. \<open>get_code\<close> (lines 39 to 43) is a
  view.
\<close>

definition update_stored_contract_body :: "env \<Rightarrow> HelloNear \<Rightarrow> error + outcome" where
  "update_stored_contract_body e this =
     (let inp = input e in
      if inp = [] then Inl (AssertionFailed ''Error: No input'')
      else Inr \<lparr>returned = RetVoid, logs = [], state = this\<lparr>code := inp\<rparr>\<rparr>)"

definition update_stored_contract :: "env \<Rightarrow> HelloNear \<Rightarrow> error + outcome" where
  "update_stored_contract e this =
     call_decorator True False e (update_stored_contract_body e this)"

definition get_code :: "env \<Rightarrow> HelloNear \<Rightarrow> error + outcome" where
  "get_code e this = Inr \<lparr>returned = RetString (code this), logs = [], state = this\<rparr>"

record create_args =
  name :: string
  beneficiary :: string
  public_key :: "string option"

record callback_args =
  account :: string
  user :: string
  attached :: int

text \<open>
  \<open>create_factory_subaccount_and_deploy\<close> (lines 45 to 99). The required amount is the
  local constant \<open>minimumNeeded\<close> of the method, as a function of the code length.
\<close>

definition minimumNeeded :: "nat \<Rightarrow> int" where
  "minimumNeeded contractBytes = NEAR_PER_STORAGE * int contractBytes"

text \<open>\<open>if (public_key)\<close>: an absent key and the empty string are both falsy.\<close>

definition truthy :: "string option \<Rightarrow> bool" where
  "truthy k = (case k of None \<Rightarrow> False | Some s \<Rightarrow> s \<noteq> [])"

definition key_text :: "string option \<Rightarrow> string" where
  "key_text k = (case k of None \<Rightarrow> [] | Some s \<Rightarrow> s)"

definition create_factory_subaccount_and_deploy_body ::
  "externals \<Rightarrow> env \<Rightarrow> HelloNear \<Rightarrow> create_args \<Rightarrow> error + outcome" where
  "create_factory_subaccount_and_deploy_body ext e this a =
     (let currentAccount = currentAccountId e;
          subaccount = name a @ ''.'' @ currentAccount
      in
      if \<not> validateAccountId ext subaccount then Inl (AssertionFailed ''Invalid subaccount'')
      else
        let attached = attachedDeposit e;
            contractBytes = length (code this);
            needed = minimumNeeded contractBytes
        in
        if \<not> needed \<le> attached then
          Inl (AssertionFailed (''Attach at least '' @ string_of_bigint needed @ '' y'' @ yocto_sign))
        else
          let initArgs = JObject [(''beneficiary'', JString (beneficiary a))];
              promise =
                functionCall ''init'' (serialize ext initArgs) NO_DEPOSIT (TGAS * 5)
                  (deployContract (code this)
                    (transfer attached
                      (createAccount (NearPromise_new subaccount))));
              callbackArgs =
                JObject [(''account'', JString subaccount),
                         (''user'', JString (predecessorAccountId e)),
                         (''attached'', JBigInt attached)];
              callback =
                functionCall ''create_factory_subaccount_and_deploy_callback''
                  (serialize ext callbackArgs) NO_DEPOSIT (TGAS * 5)
                  (NearPromise_new currentAccount)
          in
          if truthy (public_key a) then
            (case new_PublicKey ext (key_text (public_key a)) of
               None \<Rightarrow> Inl InvalidPublicKey
             | Some k \<Rightarrow>
                 Inr \<lparr>returned = RetPromise (then_promise (addFullAccessKey k promise) callback),
                      logs = [], state = this\<rparr>)
          else
            Inr \<lparr>returned = RetPromise (then_promise promise callback),
                 logs = [], state = this\<rparr>)"

definition create_factory_subaccount_and_deploy ::
  "externals \<Rightarrow> env \<Rightarrow> HelloNear \<Rightarrow> create_args \<Rightarrow> error + outcome" where
  "create_factory_subaccount_and_deploy ext e this a =
     call_decorator False True e (create_factory_subaccount_and_deploy_body ext e this a)"

text \<open>\<open>create_factory_subaccount_and_deploy_callback\<close> (lines 101 to 121).\<close>

definition create_factory_subaccount_and_deploy_callback_body ::
  "env \<Rightarrow> HelloNear \<Rightarrow> callback_args \<Rightarrow> error + outcome" where
  "create_factory_subaccount_and_deploy_callback_body e this a =
     try_catch
       (case promiseResult e 0 of
          Inl err \<Rightarrow> Inl err
        | Inr _ \<Rightarrow>
            Inr \<lparr>returned = RetBool True,
                 logs = [''Correctly created and deployed to '' @ account a],
                 state = this\<rparr>)
       (Inr \<lparr>returned = RetBool False,
            logs = [''Error creating '' @ account a @ '', returning ''
                      @ string_of_bigint (attached a) @ ''y'' @ yocto_sign @ '' to '' @ user a],
            state = this\<rparr>)"

definition create_factory_subaccount_and_deploy_callback ::
  "env \<Rightarrow> HelloNear \<Rightarrow> callback_args \<Rightarrow> error + outcome" where
  "create_factory_subaccount_and_deploy_callback e this a =
     call_decorator True False e (create_factory_subaccount_and_deploy_callback_body e this a)"

subsection \<open>Calls in sequence\<close>

text \<open>
  A call that throws leaves the stored state as it was; a call that returns stores the
  state it ends with. A returned promise is what the call hands to the platform.
\<close>

definition commit :: "HelloNear \<Rightarrow> error + outcome \<Rightarrow> HelloNear" where
  "commit this r = (case r of Inl _ \<Rightarrow> this | Inr out \<Rightarrow> state out)"

definition dispatched :: "error + outcome \<Rightarrow> NearPromise option" where
  "dispatched r =
     (case r of
        Inl _ \<Rightarrow> None
      | Inr out \<Rightarrow> (case returned out of RetPromise p \<Rightarrow> Some p | _ \<Rightarrow> None))"

text \<open>The batch a dispatched promise is chained behind.\<close>

definition batch_of :: "error + outcome \<Rightarrow> NearPromise option" where
  "batch_of r = (case dispatched r of None \<Rightarrow> None | Some p \<Rightarrow> after p)"

datatype method_call =
    Update_stored_contract
  | Get_code
  | Create_factory_subaccount_and_deploy create_args
  | Create_factory_subaccount_and_deploy_callback callback_args

definition invoke :: "externals \<Rightarrow> env \<Rightarrow> HelloNear \<Rightarrow> method_call \<Rightarrow> error + outcome" where
  "invoke ext e this m =
     (case m of
        Update_stored_contract \<Rightarrow> update_stored_contract e this
      | Get_code \<Rightarrow> get_code e this
      | Create_factory_subaccount_and_deploy a \<Rightarrow> create_factory_subaccount_and_deploy ext e this a
      | Create_factory_subaccount_and_deploy_callback a \<Rightarrow>
          create_factory_subaccount_and_deploy_callback e this a)"

fun run :: "externals \<Rightarrow> HelloNear \<Rightarrow> (env \<times> method_call) list \<Rightarrow> HelloNear" where
  "run ext this [] = this"
| "run ext this ((e, m) # calls) = run ext (commit this (invoke ext e this m)) calls"

subsection \<open>An instance of the parameters\<close>

text \<open>
  The theorems below hold for every choice of the parameters. To evaluate them on the
  scenarios of the specification, one choice is fixed here: a 1000-byte default
  contract, an account-id check on length and on labels of lower-case letters and
  digits joined by single separators, a plain JSON text, and a key check on the
  curve byte and the length.
\<close>

definition is_alnum :: "char \<Rightarrow> bool" where
  "is_alnum c = (c \<in> set ''abcdefghijklmnopqrstuvwxyz0123456789'')"

definition is_separator :: "char \<Rightarrow> bool" where
  "is_separator c = (c \<in> set ''-_.'')"

fun labels_ok :: "bool \<Rightarrow> string \<Rightarrow> bool" where
  "labels_ok prev [] = prev"
| "labels_ok prev (c # cs) =
     (if is_alnum c then labels_ok True cs
      else if is_separator c \<and> prev then labels_ok False cs
      else False)"

text \<open>
  Modelled from the spec: the account-id check \<open>validateAccountId\<close> of the SDK, whose code
  is not part of the repository's source. Section 4.2 of the specification describes the
  identity grammar as a bounded length and an allowed character set; the bounds of 2 and
  64 characters and the labels of lower-case letters and digits joined by single \<open>-\<close>,
  \<open>_\<close> or \<open>.\<close> are those of the platform's account ids. The check is given the
  concatenated name only, so it has no rule about the factory's own account.
\<close>

definition sample_validateAccountId :: "string \<Rightarrow> bool" where
  "sample_validateAccountId s = (2 \<le> length s \<and> length s \<le> 64 \<and> labels_ok False s)"

definition quoted :: "string \<Rightarrow> string" where
  "quoted s = CHR 0x22 # s @ [CHR 0x22]"

fun sample_serialize :: "jsvalue \<Rightarrow> string" where
  "sample_serialize (JString s) = quoted s"
| "sample_serialize (JBigInt i) = quoted (string_of_bigint i)"
| "sample_serialize (JObject kvs) =
     ''{'' @ concat (map (\<lambda>kv. quoted (fst kv) @ '':'' @ sample_serialize (snd kv) @ '','') kvs) @ ''}''"

definition sample_new_PublicKey :: "string \<Rightarrow> PublicKey option" where
  "sample_new_PublicKey s =
     (case s of
        [] \<Rightarrow> None
      | c # cs \<Rightarrow> if c = CHR 0x00 \<and> length cs = 32 then Some (PublicKey s) else None)"

definition sample_externals :: externals where
  "sample_externals =
     \<lparr>DEFAULT_CONTRACT = replicate 1000 (CHR 0x00),
      validateAccountId = sample_validateAccountId,
      serialize = sample_serialize,
      new_PublicKey = sample_new_PublicKey\<rparr>"

definition sample_key :: string where
  "sample_key = CHR 0x00 # replicate 32 (CHR 0x01)"

text \<open>A call to the factory \<open>factory.test\<close> by \<open>alice.test\<close>, and one by the factory itself.\<close>

definition call_by_alice :: "int \<Rightarrow> env" where
  "call_by_alice deposit =
     \<lparr>currentAccountId = ''factory.test'', predecessorAccountId = ''alice.test'',
      attachedDeposit = deposit, input = [], promise_result_status = (\<lambda>_. NotReady)\<rparr>"

definition call_by_factory :: "string \<Rightarrow> PromiseResult \<Rightarrow> env" where
  "call_by_factory inp res =
     \<lparr>currentAccountId = ''factory.test'', predecessorAccountId = ''factory.test'',
      attachedDeposit = 0, input = inp, promise_result_status = (\<lambda>_. res)\<rparr>"

definition request :: "string \<Rightarrow> string option \<Rightarrow> create_args" where
  "request n k = \<lparr>name = n, beneficiary = ''bob.test'', public_key = k\<rparr>"

definition reconcile_args :: callback_args where
  "reconcile_args = \<lparr>account = ''sub.factory.test'', user = ''alice.test'', attached = 10 ^ 22\<rparr>"

section \<open>Properties\<close>

subsection \<open>Unfolding and evaluation lemmas\<close>

lemmas create_defs =
  create_factory_subaccount_and_deploy_def create_factory_subaccount_and_deploy_body_def
  call_decorator_def

lemmas promise_defs =
  functionCall_def deployContract_def transfer_def createAccount_def
  addFullAccessKey_def addAction_def NearPromise_new_def then_promise_def

lemmas callback_defs =
  create_factory_subaccount_and_deploy_callback_def
  create_factory_subaccount_and_deploy_callback_body_def try_catch_def

lemmas update_defs =
  update_stored_contract_def update_stored_contract_body_def call_decorator_def

lemmas sample_defs =
  sample_externals_def call_by_alice_def call_by_factory_def request_def reconcile_args_def
  HelloNear_init_def

lemma create_invalid_name:
  assumes "\<not> validateAccountId ext (name a @ ''.'' @ currentAccountId e)"
  shows "create_factory_subaccount_and_deploy ext e this a =
           Inl (AssertionFailed ''Invalid subaccount'')"
  using assms by (simp add: create_defs Let_def)

lemma create_underfunded:
  assumes "attachedDeposit e < NEAR_PER_STORAGE * int (length (code this))"
    and "validateAccountId ext (name a @ ''.'' @ currentAccountId e)"
  shows "create_factory_subaccount_and_deploy ext e this a =
           Inl (AssertionFailed (''Attach at least ''
                  @ string_of_bigint (NEAR_PER_STORAGE * int (length (code this)))
                  @ '' y'' @ yocto_sign))"
  using assms by (simp add: create_defs minimumNeeded_def Let_def)

lemma digits_needed_1000:
  "string_of_bigint 10000000000000000000000 = ''10000000000000000000000''"
  by (simp add: string_of_bigint_def string_of_nat.simps digit_char_def)

lemma needed_1000: "NEAR_PER_STORAGE * int 1000 = 10000000000000000000000"
  by (simp add: NEAR_PER_STORAGE_def)

lemma sample_sub_valid: "sample_validateAccountId ''sub.factory.test''"
  by (simp add: sample_validateAccountId_def is_alnum_def is_separator_def)

lemma sample_empty_invalid: "\<not> sample_validateAccountId ''.factory.test''"
  by (simp add: sample_validateAccountId_def is_alnum_def is_separator_def)

lemma sample_key_accepted: "sample_new_PublicKey sample_key = Some (PublicKey sample_key)"
  by (simp add: sample_new_PublicKey_def sample_key_def)

text \<open>
  The name check sees the concatenated name only: two requests with the same derived
  name pass or fail it together, whatever the split into short name and factory.
\<close>

lemma name_gate_depends_on_derived_name:
  assumes "name a @ ''.'' @ currentAccountId e = name a' @ ''.'' @ currentAccountId e'"
  shows "(create_factory_subaccount_and_deploy ext e this a = Inl (AssertionFailed ''Invalid subaccount''))
       = (create_factory_subaccount_and_deploy ext e' this' a' = Inl (AssertionFailed ''Invalid subaccount''))"
  using assms by (auto simp: create_defs Let_def split: option.splits)

lemma invoke_keeps_nonempty:
  assumes "code this \<noteq> []"
  shows "code (commit this (invoke ext e this m)) \<noteq> []"
proof (cases m)
  case Update_stored_contract
  then show ?thesis using assms
    by (auto simp: invoke_def update_defs commit_def Let_def)
next
  case Get_code
  then show ?thesis using assms by (simp add: invoke_def get_code_def commit_def)
next
  case (Create_factory_subaccount_and_deploy a)
  then show ?thesis using assms
    by (auto simp: invoke_def create_defs commit_def Let_def split: option.splits)
next
  case (Create_factory_subaccount_and_deploy_callback a)
  then show ?thesis using assms
    by (auto simp: invoke_def callback_defs call_decorator_def commit_def split: sum.splits)
qed

lemma run_keeps_nonempty:
  "code this \<noteq> [] \<Longrightarrow> code (run ext this calls) \<noteq> []"
proof (induction calls arbitrary: this)
  case Nil
  then show ?case by simp
next
  case (Cons c calls)
  obtain e m where c: "c = (e, m)" by (cases c)
  show ?case using Cons.IH [OF invoke_keeps_nonempty [OF Cons.prems]] by (simp add: c)
qed

lemma create_dispatches:
  assumes "validateAccountId ext (name a @ ''.'' @ currentAccountId e)"
    and "NEAR_PER_STORAGE * int (length (code this)) \<le> attachedDeposit e"
    and "\<not> truthy (public_key a)"
  shows "\<exists>out. create_factory_subaccount_and_deploy ext e this a = Inr out"
  using assms by (simp add: create_defs minimumNeeded_def Let_def)

lemma sample_request_valid:
  "validateAccountId sample_externals
     (name (request ''sub'' k) @ ''.'' @ currentAccountId (call_by_alice d))"
  using sample_sub_valid by (simp add: sample_defs)

lemma sample_request_funded:
  "NEAR_PER_STORAGE * int (length (code (HelloNear_init sample_externals)))
     \<le> attachedDeposit (call_by_alice (10 ^ 22))"
  by (simp add: sample_defs NEAR_PER_STORAGE_def)

lemma sample_request_no_key: "\<not> truthy (public_key (request n None))"
  by (simp add: request_def truthy_def)

text \<open>The decimal text determines the number: different amounts give different texts.\<close>

lemma digit_char_code:
  assumes "d < 10"
  shows "of_char (digit_char d) = (48 + d :: nat)"
proof -
  have "d \<in> {0, 1, 2, 3, 4, 5, 6, 7, 8, 9}" using assms by auto
  then show ?thesis by (auto simp: digit_char_def)
qed

lemma digit_char_inj:
  assumes "d < 10" and "d' < 10" and "digit_char d = digit_char d'"
  shows "d = d'"
proof -
  have "(of_char (digit_char d) :: nat) = of_char (digit_char d')"
    by (rule arg_cong [OF assms(3)])
  then have "(48 + d :: nat) = 48 + d'"
    by (simp only: digit_char_code [OF assms(1)] digit_char_code [OF assms(2)])
  then show ?thesis by linarith
qed

lemma digit_char_is_digit:
  assumes "d < 10"
  shows "digit_char d \<in> set ''0123456789''"
proof -
  have "d \<in> {0, 1, 2, 3, 4, 5, 6, 7, 8, 9}" using assms by auto
  then show ?thesis by (auto simp: digit_char_def)
qed

lemma string_of_nat_nonempty: "string_of_nat n \<noteq> []"
  by (subst string_of_nat.simps) simp

lemma string_of_nat_digits: "set (string_of_nat n) \<subseteq> set ''0123456789''"
proof (induction n rule: string_of_nat.induct)
  case (1 n)
  show ?case
  proof (cases "n < 10")
    case True
    then show ?thesis
      using digit_char_is_digit [of n] by (subst string_of_nat.simps) simp
  next
    case False
    have "n mod 10 < 10" by simp
    then have "digit_char (n mod 10) \<in> set ''0123456789''" by (rule digit_char_is_digit)
    then show ?thesis
      using 1 [OF False] False by (subst string_of_nat.simps) simp
  qed
qed

lemma string_of_nat_long:
  assumes "\<not> n < 10"
  shows "2 \<le> length (string_of_nat n)"
proof -
  have "string_of_nat n = string_of_nat (n div 10) @ [digit_char (n mod 10)]"
    using assms by (subst string_of_nat.simps) simp
  moreover have "1 \<le> length (string_of_nat (n div 10))"
    using string_of_nat_nonempty [of "n div 10"] by (cases "string_of_nat (n div 10)") simp_all
  ultimately show ?thesis by simp
qed

lemma string_of_nat_short:
  assumes "n < 10"
  shows "string_of_nat n = [digit_char n]"
  using assms by (subst string_of_nat.simps) simp

lemma string_of_nat_inj: "string_of_nat n = string_of_nat m \<Longrightarrow> n = m"
proof (induction n arbitrary: m rule: string_of_nat.induct)
  case (1 n)
  have len: "length (string_of_nat n) = length (string_of_nat m)"
    by (rule arg_cong [OF "1.prems"])
  show ?case
  proof (cases "n < 10")
    case n: True
    show ?thesis
    proof (cases "m < 10")
      case True
      then show ?thesis
        using n "1.prems" digit_char_inj by (simp add: string_of_nat_short)
    next
      case False
      then show ?thesis
        using len string_of_nat_long [OF False] by (simp add: string_of_nat_short [OF n])
    qed
  next
    case n: False
    show ?thesis
    proof (cases "m < 10")
      case True
      then show ?thesis
        using len string_of_nat_long [OF n] by (simp add: string_of_nat_short)
    next
      case False
      have en: "string_of_nat n = string_of_nat (n div 10) @ [digit_char (n mod 10)]"
        using n by (subst string_of_nat.simps) simp
      have em: "string_of_nat m = string_of_nat (m div 10) @ [digit_char (m mod 10)]"
        using False by (subst string_of_nat.simps) simp
      from "1.prems" en em
      have firstd: "string_of_nat (n div 10) = string_of_nat (m div 10)"
        and lastd: "digit_char (n mod 10) = digit_char (m mod 10)"
        by simp_all
      have q: "n div 10 = m div 10" by (rule "1.IH" [OF n firstd])
      have r: "n mod 10 = m mod 10"
        by (rule digit_char_inj [OF _ _ lastd]) simp_all
      have "n = 10 * (n div 10) + n mod 10" by simp
      also have "\<dots> = 10 * (m div 10) + m mod 10" by (simp only: q r)
      also have "\<dots> = m" by simp
      finally show ?thesis .
    qed
  qed
qed

lemma string_of_bigint_inj:
  assumes "string_of_bigint i = string_of_bigint j"
  shows "i = j"
proof -
  have nodash: "CHR ''-'' # xs \<noteq> string_of_nat k" for xs k
  proof
    assume "CHR ''-'' # xs = string_of_nat k"
    then have "CHR ''-'' \<in> set (string_of_nat k)" by (metis list.set_intros(1))
    then have "CHR ''-'' \<in> set ''0123456789''" using string_of_nat_digits by blast
    then show False by simp
  qed
  show ?thesis
  proof (cases "i < 0")
    case i: True
    show ?thesis
    proof (cases "j < 0")
      case True
      then have "nat (- i) = nat (- j)"
        using i assms string_of_nat_inj by (simp add: string_of_bigint_def)
      then show ?thesis using i True by simp
    next
      case False
      then show ?thesis using i assms nodash by (simp add: string_of_bigint_def)
    qed
  next
    case i: False
    show ?thesis
    proof (cases "j < 0")
      case True
      then show ?thesis using i assms nodash [symmetric] by (simp add: string_of_bigint_def)
    next
      case False
      then have "nat i = nat j"
        using i assms string_of_nat_inj by (simp add: string_of_bigint_def)
      then show ?thesis using i False by simp
    qed
  qed
qed

text \<open>What the account-id check rejects.\<close>

lemma labels_ok_invalid_char:
  assumes "\<exists>c \<in> set s. \<not> is_alnum c \<and> \<not> is_separator c"
  shows "\<not> labels_ok prev s"
  using assms by (induction s arbitrary: prev) auto

lemma sample_rejects_empty_short_name: "\<not> sample_validateAccountId ([] @ ''.'' @ cur)"
  by (simp add: sample_validateAccountId_def is_alnum_def)

lemma sample_rejects_too_long:
  assumes "64 < length s"
  shows "\<not> sample_validateAccountId s"
  using assms by (simp add: sample_validateAccountId_def)

lemma sample_rejects_invalid_char:
  assumes "\<exists>c \<in> set n. \<not> is_alnum c \<and> \<not> is_separator c"
  shows "\<not> sample_validateAccountId (n @ ''.'' @ cur)"
proof -
  have "\<exists>c \<in> set (n @ ''.'' @ cur). \<not> is_alnum c \<and> \<not> is_separator c"
    using assms by auto
  then have "\<not> labels_ok False (n @ ''.'' @ cur)" by (rule labels_ok_invalid_char)
  then show ?thesis by (simp add: sample_validateAccountId_def)
qed

lemma create_rejected_key:
  assumes "validateAccountId ext (name a @ ''.'' @ currentAccountId e)"
    and "NEAR_PER_STORAGE * int (length (code this)) \<le> attachedDeposit e"
    and "truthy (public_key a)"
    and "new_PublicKey ext (key_text (public_key a)) = None"
  shows "create_factory_subaccount_and_deploy ext e this a = Inl InvalidPublicKey"
  using assms by (simp add: create_defs minimumNeeded_def Let_def)

lemma sample_text_key_rejected: "sample_new_PublicKey ''ed25519:abc'' = None"
  by (simp add: sample_new_PublicKey_def)

subsection \<open>The dispatched batch\<close>

text \<open>
  C1, as amended. For every request that passes the name check and the funding check
  and whose key, if one is supplied, is accepted by the SDK's key constructor, the call
  dispatches against the child name (short name, a dot, the factory's own account) one
  batch made of exactly: create the account, transfer the whole attached deposit, deploy
  the stored code, call \<open>init\<close> with the serialised beneficiary, no deposit and the
  fixed gas of 5 Tgas; a full-access-key action for the supplied key follows the init
  call if and only if a key was supplied. A supplied key is a non-empty key string. A
  request whose supplied key the constructor rejects throws at the key step: nothing is
  dispatched and the state is unchanged.
\<close>

theorem provision_dispatches_ordered_batch:
  assumes "validateAccountId ext (name a @ ''.'' @ currentAccountId e)"
    and "NEAR_PER_STORAGE * int (length (code this)) \<le> attachedDeposit e"
  shows "(\<not> truthy (public_key a) \<longrightarrow>
            batch_of (create_factory_subaccount_and_deploy ext e this a) =
              Some (NearPromise (name a @ ''.'' @ currentAccountId e)
                      [CreateAccount,
                       Transfer (attachedDeposit e),
                       DeployContract (code this),
                       FunctionCall ''init''
                         (serialize ext (JObject [(''beneficiary'', JString (beneficiary a))]))
                         0 (5 * 10 ^ 12)]
                      None))
         \<and> (truthy (public_key a) \<and> new_PublicKey ext (key_text (public_key a)) = Some k \<longrightarrow>
            batch_of (create_factory_subaccount_and_deploy ext e this a) =
              Some (NearPromise (name a @ ''.'' @ currentAccountId e)
                      [CreateAccount,
                       Transfer (attachedDeposit e),
                       DeployContract (code this),
                       FunctionCall ''init''
                         (serialize ext (JObject [(''beneficiary'', JString (beneficiary a))]))
                         0 (5 * 10 ^ 12),
                       AddFullAccessKey k]
                      None))
         \<and> (truthy (public_key a) \<and> new_PublicKey ext (key_text (public_key a)) = None \<longrightarrow>
            create_factory_subaccount_and_deploy ext e this a = Inl InvalidPublicKey
            \<and> dispatched (create_factory_subaccount_and_deploy ext e this a) = None
            \<and> commit this (create_factory_subaccount_and_deploy ext e this a) = this)"
proof (intro conjI impI)
  assume "\<not> truthy (public_key a)"
  then show "batch_of (create_factory_subaccount_and_deploy ext e this a) =
              Some (NearPromise (name a @ ''.'' @ currentAccountId e)
                      [CreateAccount,
                       Transfer (attachedDeposit e),
                       DeployContract (code this),
                       FunctionCall ''init''
                         (serialize ext (JObject [(''beneficiary'', JString (beneficiary a))]))
                         0 (5 * 10 ^ 12)]
                      None)"
    using assms
    by (simp add: create_defs promise_defs minimumNeeded_def batch_of_def dispatched_def
        NO_DEPOSIT_def TGAS_def Let_def)
next
  assume "truthy (public_key a) \<and> new_PublicKey ext (key_text (public_key a)) = Some k"
  then show "batch_of (create_factory_subaccount_and_deploy ext e this a) =
              Some (NearPromise (name a @ ''.'' @ currentAccountId e)
                      [CreateAccount,
                       Transfer (attachedDeposit e),
                       DeployContract (code this),
                       FunctionCall ''init''
                         (serialize ext (JObject [(''beneficiary'', JString (beneficiary a))]))
                         0 (5 * 10 ^ 12),
                       AddFullAccessKey k]
                      None)"
    using assms
    by (simp add: create_defs promise_defs minimumNeeded_def batch_of_def dispatched_def
        NO_DEPOSIT_def TGAS_def Let_def)
next
  assume rejected: "truthy (public_key a) \<and> new_PublicKey ext (key_text (public_key a)) = None"
  then show thrown: "create_factory_subaccount_and_deploy ext e this a = Inl InvalidPublicKey"
    using create_rejected_key [OF assms] by blast
  show "dispatched (create_factory_subaccount_and_deploy ext e this a) = None"
    by (simp add: thrown dispatched_def)
  show "commit this (create_factory_subaccount_and_deploy ext e this a) = this"
    by (simp add: thrown commit_def)
qed

theorem provision_dispatches_ordered_batch_witness:
  "batch_of (create_factory_subaccount_and_deploy sample_externals (call_by_alice (10 ^ 22))
       (HelloNear_init sample_externals) (request ''sub'' None)) =
     Some (NearPromise ''sub.factory.test''
             [CreateAccount,
              Transfer (10 ^ 22),
              DeployContract (replicate 1000 (CHR 0x00)),
              FunctionCall ''init''
                (sample_serialize (JObject [(''beneficiary'', JString ''bob.test'')]))
                0 (5 * 10 ^ 12)]
             None)
   \<and> batch_of (create_factory_subaccount_and_deploy sample_externals (call_by_alice (10 ^ 22))
       (HelloNear_init sample_externals) (request ''sub'' (Some sample_key))) =
     Some (NearPromise ''sub.factory.test''
             [CreateAccount,
              Transfer (10 ^ 22),
              DeployContract (replicate 1000 (CHR 0x00)),
              FunctionCall ''init''
                (sample_serialize (JObject [(''beneficiary'', JString ''bob.test'')]))
                0 (5 * 10 ^ 12),
              AddFullAccessKey (PublicKey sample_key)]
             None)
   \<and> dispatched (create_factory_subaccount_and_deploy sample_externals (call_by_alice (10 ^ 22))
       (HelloNear_init sample_externals) (request ''sub'' (Some ''ed25519:abc''))) = None"
proof -
  have v: "validateAccountId sample_externals
             (name (request ''sub'' k) @ ''.'' @ currentAccountId (call_by_alice (10 ^ 22)))" for k
    by (rule sample_request_valid)
  note f = sample_request_funded
  have t0: "\<not> truthy (public_key (request ''sub'' None))"
    by (rule sample_request_no_key)
  have k1: "truthy (public_key (request ''sub'' (Some sample_key)))
            \<and> new_PublicKey sample_externals
                (key_text (public_key (request ''sub'' (Some sample_key))))
                = Some (PublicKey sample_key)"
    using sample_key_accepted by (simp add: sample_defs key_text_def truthy_def sample_key_def)
  have k2: "truthy (public_key (request ''sub'' (Some ''ed25519:abc'')))
            \<and> new_PublicKey sample_externals
                (key_text (public_key (request ''sub'' (Some ''ed25519:abc''))))
                = None"
    using sample_text_key_rejected by (simp add: sample_defs key_text_def truthy_def)
  have a: "batch_of (create_factory_subaccount_and_deploy sample_externals
             (call_by_alice (10 ^ 22)) (HelloNear_init sample_externals) (request ''sub'' None)) =
     Some (NearPromise ''sub.factory.test''
             [CreateAccount,
              Transfer (10 ^ 22),
              DeployContract (replicate 1000 (CHR 0x00)),
              FunctionCall ''init''
                (sample_serialize (JObject [(''beneficiary'', JString ''bob.test'')]))
                0 (5 * 10 ^ 12)]
             None)"
    using provision_dispatches_ordered_batch [OF v f, of None] t0
    by (simp add: sample_defs)
  have b: "batch_of (create_factory_subaccount_and_deploy sample_externals
             (call_by_alice (10 ^ 22)) (HelloNear_init sample_externals)
             (request ''sub'' (Some sample_key))) =
     Some (NearPromise ''sub.factory.test''
             [CreateAccount,
              Transfer (10 ^ 22),
              DeployContract (replicate 1000 (CHR 0x00)),
              FunctionCall ''init''
                (sample_serialize (JObject [(''beneficiary'', JString ''bob.test'')]))
                0 (5 * 10 ^ 12),
              AddFullAccessKey (PublicKey sample_key)]
             None)"
    using provision_dispatches_ordered_batch
            [OF v f, of "Some sample_key" "PublicKey sample_key"] k1
    by (simp add: sample_defs)
  have c: "dispatched (create_factory_subaccount_and_deploy sample_externals
             (call_by_alice (10 ^ 22)) (HelloNear_init sample_externals)
             (request ''sub'' (Some ''ed25519:abc''))) = None"
    using provision_dispatches_ordered_batch [OF v f, of "Some ''ed25519:abc''"] k2
    by blast
  show ?thesis using a b c by blast
qed

text \<open>
  The claim as stated covers every request past the two checks. A request with a valid
  name and enough funds whose key string the key constructor rejects throws when the key
  is built, before the promise is returned: no batch is dispatched.
\<close>

theorem rejected_key_counterexample:
  "validateAccountId sample_externals ''sub.factory.test''
   \<and> NEAR_PER_STORAGE * int (length (code (HelloNear_init sample_externals)))
        \<le> attachedDeposit (call_by_alice (10 ^ 22))
   \<and> new_PublicKey sample_externals ''ed25519:abc'' = None
   \<and> create_factory_subaccount_and_deploy sample_externals (call_by_alice (10 ^ 22))
        (HelloNear_init sample_externals) (request ''sub'' (Some ''ed25519:abc''))
      = Inl InvalidPublicKey
   \<and> batch_of (create_factory_subaccount_and_deploy sample_externals (call_by_alice (10 ^ 22))
        (HelloNear_init sample_externals) (request ''sub'' (Some ''ed25519:abc''))) = None"
proof -
  have v: "validateAccountId sample_externals ''sub.factory.test''"
    using sample_sub_valid by (simp add: sample_defs)
  have rej: "new_PublicKey sample_externals ''ed25519:abc'' = None"
    using sample_text_key_rejected by (simp add: sample_defs)
  have t: "truthy (public_key (request ''sub'' (Some ''ed25519:abc'')))"
    by (simp add: request_def truthy_def)
  have rej': "new_PublicKey sample_externals
                (key_text (public_key (request ''sub'' (Some ''ed25519:abc'')))) = None"
    using rej by (simp add: request_def key_text_def)
  have thrown: "create_factory_subaccount_and_deploy sample_externals (call_by_alice (10 ^ 22))
        (HelloNear_init sample_externals) (request ''sub'' (Some ''ed25519:abc''))
      = Inl InvalidPublicKey"
    by (rule create_rejected_key [OF sample_request_valid sample_request_funded t rej'])
  have none: "batch_of (create_factory_subaccount_and_deploy sample_externals
        (call_by_alice (10 ^ 22)) (HelloNear_init sample_externals)
        (request ''sub'' (Some ''ed25519:abc''))) = None"
    unfolding thrown by (simp add: batch_of_def dispatched_def)
  show ?thesis using v sample_request_funded rej thrown none by blast
qed

subsection \<open>The funding check\<close>

text \<open>
  C2, as amended. For every request whose attached deposit is strictly less than
  \<open>NEAR_PER_STORAGE\<close> times the length of the stored code, the call throws and nothing is
  dispatched and the state is unchanged; when the derived name passes the name check,
  the error is the assertion message \<open>Attach at least n y\<close> followed by the yocto sign,
  with \<open>n\<close> the required amount. The cost per byte is the constant \<open>10 ^ 19\<close>, so with
  a 1000-byte stored code the reported amount is \<open>10 ^ 22\<close>.
\<close>

theorem insufficient_funds_aborts:
  assumes "attachedDeposit e < NEAR_PER_STORAGE * int (length (code this))"
  shows "(validateAccountId ext (name a @ ''.'' @ currentAccountId e) \<longrightarrow>
            create_factory_subaccount_and_deploy ext e this a =
              Inl (AssertionFailed (''Attach at least ''
                     @ string_of_bigint (NEAR_PER_STORAGE * int (length (code this)))
                     @ '' y'' @ yocto_sign)))
         \<and> (\<exists>err. create_factory_subaccount_and_deploy ext e this a = Inl err)
         \<and> dispatched (create_factory_subaccount_and_deploy ext e this a) = None
         \<and> commit this (create_factory_subaccount_and_deploy ext e this a) = this
         \<and> (validateAccountId ext (name a @ ''.'' @ currentAccountId e)
              \<and> length (code this) = 1000 \<longrightarrow>
            create_factory_subaccount_and_deploy ext e this a =
              Inl (AssertionFailed (''Attach at least 10000000000000000000000 y'' @ yocto_sign)))"
proof -
  have fails: "\<exists>err. create_factory_subaccount_and_deploy ext e this a = Inl err"
  proof (cases "validateAccountId ext (name a @ ''.'' @ currentAccountId e)")
    case True
    then show ?thesis using create_underfunded [OF assms] by blast
  next
    case False
    then show ?thesis using create_invalid_name by blast
  qed
  then obtain err where err: "create_factory_subaccount_and_deploy ext e this a = Inl err" ..
  have nodisp: "dispatched (create_factory_subaccount_and_deploy ext e this a) = None"
    by (simp add: err dispatched_def)
  have same: "commit this (create_factory_subaccount_and_deploy ext e this a) = this"
    by (simp add: err commit_def)
  have scenario: "validateAccountId ext (name a @ ''.'' @ currentAccountId e)
              \<and> length (code this) = 1000 \<longrightarrow>
            create_factory_subaccount_and_deploy ext e this a =
              Inl (AssertionFailed (''Attach at least 10000000000000000000000 y'' @ yocto_sign))"
  proof
    assume h: "validateAccountId ext (name a @ ''.'' @ currentAccountId e)
                 \<and> length (code this) = 1000"
    then have "create_factory_subaccount_and_deploy ext e this a =
              Inl (AssertionFailed (''Attach at least ''
                     @ string_of_bigint (NEAR_PER_STORAGE * int (length (code this)))
                     @ '' y'' @ yocto_sign))"
      using create_underfunded [OF assms] by blast
    also have "NEAR_PER_STORAGE * int (length (code this)) = 10000000000000000000000"
      using h needed_1000 by simp
    finally show "create_factory_subaccount_and_deploy ext e this a =
              Inl (AssertionFailed (''Attach at least 10000000000000000000000 y'' @ yocto_sign))"
      by (simp only: digits_needed_1000 append.simps)
  qed
  show ?thesis using create_underfunded [OF assms] fails nodisp same scenario by blast
qed

theorem insufficient_funds_aborts_witness:
  "attachedDeposit (call_by_alice 9999)
     < NEAR_PER_STORAGE * int (length (code (HelloNear_init sample_externals)))
   \<and> validateAccountId sample_externals ''sub.factory.test''
   \<and> length (code (HelloNear_init sample_externals)) = 1000
   \<and> create_factory_subaccount_and_deploy sample_externals (call_by_alice 9999)
        (HelloNear_init sample_externals) (request ''sub'' None) =
      Inl (AssertionFailed (''Attach at least 10000000000000000000000 y'' @ yocto_sign))
   \<and> dispatched (create_factory_subaccount_and_deploy sample_externals (call_by_alice 9999)
        (HelloNear_init sample_externals) (request ''sub'' None)) = None
   \<and> commit (HelloNear_init sample_externals)
        (create_factory_subaccount_and_deploy sample_externals (call_by_alice 9999)
          (HelloNear_init sample_externals) (request ''sub'' None))
      = HelloNear_init sample_externals"
proof -
  have low: "attachedDeposit (call_by_alice 9999)
               < NEAR_PER_STORAGE * int (length (code (HelloNear_init sample_externals)))"
    by (simp add: sample_defs NEAR_PER_STORAGE_def)
  have v: "validateAccountId sample_externals
             (name (request ''sub'' None) @ ''.'' @ currentAccountId (call_by_alice 9999))"
    using sample_sub_valid by (simp add: sample_defs)
  have v': "validateAccountId sample_externals ''sub.factory.test''"
    using sample_sub_valid by (simp add: sample_defs)
  have len: "length (code (HelloNear_init sample_externals)) = 1000"
    by (simp add: sample_defs)
  show ?thesis
    using insufficient_funds_aborts [OF low, of sample_externals "request ''sub'' None"]
      low v v' len
    by blast
qed

text \<open>
  The claim as stated fails in two ways. With a 1000-byte stored code and 9999 attached,
  the amount in the message is \<open>10 ^ 22\<close> and not 10000, the cost per byte being
  \<open>10 ^ 19\<close> and not 10. And an underfunded request with a name that fails the name
  check throws the name error, not the funding error.
\<close>

theorem insufficient_funds_scenario_counterexample:
  "NEAR_PER_STORAGE \<noteq> 10
   \<and> create_factory_subaccount_and_deploy sample_externals (call_by_alice 9999)
        (HelloNear_init sample_externals) (request ''sub'' None)
      = Inl (AssertionFailed (''Attach at least 10000000000000000000000 y'' @ yocto_sign))
   \<and> create_factory_subaccount_and_deploy sample_externals (call_by_alice 9999)
        (HelloNear_init sample_externals) (request ''sub'' None)
      \<noteq> Inl (AssertionFailed (''Attach at least 10000 y'' @ yocto_sign))
   \<and> create_factory_subaccount_and_deploy sample_externals (call_by_alice 9999)
        (HelloNear_init sample_externals) (request [] None)
      = Inl (AssertionFailed ''Invalid subaccount'')"
proof -
  have low: "attachedDeposit (call_by_alice 9999)
               < NEAR_PER_STORAGE * int (length (code (HelloNear_init sample_externals)))"
    by (simp add: sample_defs NEAR_PER_STORAGE_def)
  have v: "validateAccountId sample_externals
             (name (request ''sub'' None) @ ''.'' @ currentAccountId (call_by_alice 9999))"
    using sample_sub_valid by (simp add: sample_defs)
  have "create_factory_subaccount_and_deploy sample_externals (call_by_alice 9999)
          (HelloNear_init sample_externals) (request ''sub'' None)
        = Inl (AssertionFailed (''Attach at least ''
                 @ string_of_bigint
                     (NEAR_PER_STORAGE * int (length (code (HelloNear_init sample_externals))))
                 @ '' y'' @ yocto_sign))"
    by (rule create_underfunded [OF low v])
  also have "NEAR_PER_STORAGE * int (length (code (HelloNear_init sample_externals)))
               = 10000000000000000000000"
    using needed_1000 by (simp add: sample_defs)
  finally have actual:
    "create_factory_subaccount_and_deploy sample_externals (call_by_alice 9999)
       (HelloNear_init sample_externals) (request ''sub'' None)
     = Inl (AssertionFailed (''Attach at least 10000000000000000000000 y'' @ yocto_sign))"
    by (simp only: digits_needed_1000 append.simps)
  have differs: "create_factory_subaccount_and_deploy sample_externals (call_by_alice 9999)
        (HelloNear_init sample_externals) (request ''sub'' None)
      \<noteq> Inl (AssertionFailed (''Attach at least 10000 y'' @ yocto_sign))"
    unfolding actual by simp
  have nv: "\<not> validateAccountId sample_externals
             (name (request [] None) @ ''.'' @ currentAccountId (call_by_alice 9999))"
    using sample_empty_invalid by (simp add: sample_defs)
  have named: "create_factory_subaccount_and_deploy sample_externals (call_by_alice 9999)
        (HelloNear_init sample_externals) (request [] None)
      = Inl (AssertionFailed ''Invalid subaccount'')"
    by (rule create_invalid_name [OF nv])
  have "NEAR_PER_STORAGE \<noteq> 10" by (simp add: NEAR_PER_STORAGE_def)
  then show ?thesis using actual differs named by blast
qed

subsection \<open>The name check\<close>

text \<open>
  C3, as amended. For every short name whose derived child name (short name, a dot, the
  factory's account) violates the account-id grammar, the call throws
  \<open>Invalid subaccount\<close>, whatever amount is attached (the deposit is read only after the
  name check), and nothing is dispatched and the state is unchanged. This includes an
  empty short name, one that makes the name longer than the maximum of 64 characters,
  and one with a character outside the allowed set. The check is applied to the
  concatenated name alone: two requests with the same derived name pass or fail it
  together, so a short name containing the separator is rejected only when the whole
  derived name violates the grammar.
\<close>

theorem invalid_name_aborts_first:
  "(\<not> validateAccountId ext (name a @ ''.'' @ currentAccountId e) \<longrightarrow>
      create_factory_subaccount_and_deploy ext e this a =
        Inl (AssertionFailed ''Invalid subaccount'')
      \<and> (\<forall>d. create_factory_subaccount_and_deploy ext (e\<lparr>attachedDeposit := d\<rparr>) this a
               = Inl (AssertionFailed ''Invalid subaccount''))
      \<and> dispatched (create_factory_subaccount_and_deploy ext e this a) = None
      \<and> commit this (create_factory_subaccount_and_deploy ext e this a) = this)
   \<and> (name a = []
        \<or> 64 < length (name a @ ''.'' @ currentAccountId e)
        \<or> (\<exists>c \<in> set (name a). \<not> is_alnum c \<and> \<not> is_separator c) \<longrightarrow>
        \<not> sample_validateAccountId (name a @ ''.'' @ currentAccountId e)
        \<and> (\<forall>d. create_factory_subaccount_and_deploy
                  (ext\<lparr>validateAccountId := sample_validateAccountId\<rparr>)
                  (e\<lparr>attachedDeposit := d\<rparr>) this a
               = Inl (AssertionFailed ''Invalid subaccount''))
        \<and> dispatched (create_factory_subaccount_and_deploy
              (ext\<lparr>validateAccountId := sample_validateAccountId\<rparr>) e this a) = None
        \<and> commit this (create_factory_subaccount_and_deploy
              (ext\<lparr>validateAccountId := sample_validateAccountId\<rparr>) e this a) = this)
   \<and> (name a @ ''.'' @ currentAccountId e = name a' @ ''.'' @ currentAccountId e' \<longrightarrow>
        (create_factory_subaccount_and_deploy ext e this a =
           Inl (AssertionFailed ''Invalid subaccount''))
        = (create_factory_subaccount_and_deploy ext e' this' a' =
             Inl (AssertionFailed ''Invalid subaccount'')))"
proof (intro conjI impI)
  assume nv: "\<not> validateAccountId ext (name a @ ''.'' @ currentAccountId e)"
  then show "create_factory_subaccount_and_deploy ext e this a =
               Inl (AssertionFailed ''Invalid subaccount'')"
    by (rule create_invalid_name)
  then show "dispatched (create_factory_subaccount_and_deploy ext e this a) = None"
    and "commit this (create_factory_subaccount_and_deploy ext e this a) = this"
    by (simp_all add: dispatched_def commit_def)
  show "\<forall>d. create_factory_subaccount_and_deploy ext (e\<lparr>attachedDeposit := d\<rparr>) this a
               = Inl (AssertionFailed ''Invalid subaccount'')"
    using nv by (simp add: create_defs Let_def)
next
  let ?ext = "ext\<lparr>validateAccountId := sample_validateAccountId\<rparr>"
  assume kinds: "name a = []
        \<or> 64 < length (name a @ ''.'' @ currentAccountId e)
        \<or> (\<exists>c \<in> set (name a). \<not> is_alnum c \<and> \<not> is_separator c)"
  then show rejected: "\<not> sample_validateAccountId (name a @ ''.'' @ currentAccountId e)"
  proof (elim disjE)
    assume "name a = []"
    then show ?thesis
      using sample_rejects_empty_short_name [of "currentAccountId e"] by simp
  next
    assume "64 < length (name a @ ''.'' @ currentAccountId e)"
    then show ?thesis by (rule sample_rejects_too_long)
  next
    assume "\<exists>c \<in> set (name a). \<not> is_alnum c \<and> \<not> is_separator c"
    then show ?thesis by (rule sample_rejects_invalid_char)
  qed
  have nv: "\<not> validateAccountId ?ext (name a @ ''.'' @ currentAccountId (e\<lparr>attachedDeposit := d\<rparr>))"
    for d
    using rejected by simp
  show "\<forall>d. create_factory_subaccount_and_deploy ?ext (e\<lparr>attachedDeposit := d\<rparr>) this a
               = Inl (AssertionFailed ''Invalid subaccount'')"
    using create_invalid_name [OF nv] by blast
  have thrown: "create_factory_subaccount_and_deploy ?ext e this a
                  = Inl (AssertionFailed ''Invalid subaccount'')"
    using create_invalid_name [OF nv [of "attachedDeposit e"]] by simp
  show "dispatched (create_factory_subaccount_and_deploy ?ext e this a) = None"
    by (simp add: thrown dispatched_def)
  show "commit this (create_factory_subaccount_and_deploy ?ext e this a) = this"
    by (simp add: thrown commit_def)
next
  assume "name a @ ''.'' @ currentAccountId e = name a' @ ''.'' @ currentAccountId e'"
  then show "(create_factory_subaccount_and_deploy ext e this a =
                Inl (AssertionFailed ''Invalid subaccount''))
           = (create_factory_subaccount_and_deploy ext e' this' a' =
                Inl (AssertionFailed ''Invalid subaccount''))"
    by (rule name_gate_depends_on_derived_name)
qed

theorem invalid_name_aborts_first_witness:
  "\<not> validateAccountId sample_externals ''.factory.test''
   \<and> create_factory_subaccount_and_deploy sample_externals (call_by_alice 0)
        (HelloNear_init sample_externals) (request [] None)
      = Inl (AssertionFailed ''Invalid subaccount'')
   \<and> dispatched (create_factory_subaccount_and_deploy sample_externals (call_by_alice 0)
        (HelloNear_init sample_externals) (request [] None)) = None
   \<and> 64 < length (name (request (replicate 60 (CHR ''a'')) None) @ ''.''
                    @ currentAccountId (call_by_alice (10 ^ 22)))
   \<and> create_factory_subaccount_and_deploy sample_externals (call_by_alice (10 ^ 22))
        (HelloNear_init sample_externals) (request (replicate 60 (CHR ''a'')) None)
      = Inl (AssertionFailed ''Invalid subaccount'')
   \<and> (\<exists>c \<in> set (name (request ''Sub'' None)). \<not> is_alnum c \<and> \<not> is_separator c)
   \<and> create_factory_subaccount_and_deploy sample_externals (call_by_alice (10 ^ 22))
        (HelloNear_init sample_externals) (request ''Sub'' None)
      = Inl (AssertionFailed ''Invalid subaccount'')
   \<and> name (request ''sub.factory'' None) @ ''.''
        @ currentAccountId ((call_by_alice (10 ^ 22))\<lparr>currentAccountId := ''test''\<rparr>)
      = name (request ''sub'' None) @ ''.'' @ currentAccountId (call_by_alice (10 ^ 22))
   \<and> (create_factory_subaccount_and_deploy sample_externals
         ((call_by_alice (10 ^ 22))\<lparr>currentAccountId := ''test''\<rparr>)
         (HelloNear_init sample_externals) (request ''sub.factory'' None)
        = Inl (AssertionFailed ''Invalid subaccount''))
     = (create_factory_subaccount_and_deploy sample_externals (call_by_alice (10 ^ 22))
         (HelloNear_init sample_externals) (request ''sub'' None)
        = Inl (AssertionFailed ''Invalid subaccount''))"
proof -
  have same_ext: "sample_externals\<lparr>validateAccountId := sample_validateAccountId\<rparr>
                    = sample_externals"
    by (simp add: sample_externals_def)
  have same_env: "(call_by_alice d)\<lparr>attachedDeposit := d\<rparr> = call_by_alice d" for d
    by (simp add: call_by_alice_def)
  have nv: "\<not> validateAccountId sample_externals
             (name (request [] None) @ ''.'' @ currentAccountId (call_by_alice 0))"
    using sample_empty_invalid by (simp add: sample_defs)
  have nv': "\<not> validateAccountId sample_externals ''.factory.test''"
    using sample_empty_invalid by (simp add: sample_defs)
  have long: "64 < length (name (request (replicate 60 (CHR ''a'')) None) @ ''.''
                    @ currentAccountId (call_by_alice (10 ^ 22)))"
    by (simp add: sample_defs)
  have upper: "\<exists>c \<in> set (name (request ''Sub'' None)). \<not> is_alnum c \<and> \<not> is_separator c"
    by (simp add: request_def is_alnum_def is_separator_def)
  have same: "name (request ''sub.factory'' None) @ ''.''
        @ currentAccountId ((call_by_alice (10 ^ 22))\<lparr>currentAccountId := ''test''\<rparr>)
      = name (request ''sub'' None) @ ''.'' @ currentAccountId (call_by_alice (10 ^ 22))"
    by (simp add: sample_defs)
  note first = invalid_name_aborts_first
                 [where ext = sample_externals and a = "request [] None"
                    and e = "call_by_alice 0" and this = "HelloNear_init sample_externals"]
  note second = invalid_name_aborts_first
                  [where ext = sample_externals and a = "request ''sub.factory'' None"
                     and e = "(call_by_alice (10 ^ 22))\<lparr>currentAccountId := ''test''\<rparr>"
                     and this = "HelloNear_init sample_externals"
                     and a' = "request ''sub'' None" and e' = "call_by_alice (10 ^ 22)"
                     and this' = "HelloNear_init sample_externals"]
  note third = invalid_name_aborts_first
                 [where ext = sample_externals and a = "request (replicate 60 (CHR ''a'')) None"
                    and e = "call_by_alice (10 ^ 22)" and this = "HelloNear_init sample_externals"]
  note fourth = invalid_name_aborts_first
                  [where ext = sample_externals and a = "request ''Sub'' None"
                     and e = "call_by_alice (10 ^ 22)" and this = "HelloNear_init sample_externals"]
  have a: "create_factory_subaccount_and_deploy sample_externals (call_by_alice 0)
        (HelloNear_init sample_externals) (request [] None)
      = Inl (AssertionFailed ''Invalid subaccount'')"
    using first nv by blast
  have b: "dispatched (create_factory_subaccount_and_deploy sample_externals (call_by_alice 0)
        (HelloNear_init sample_externals) (request [] None)) = None"
    using first nv by blast
  have c: "(create_factory_subaccount_and_deploy sample_externals
         ((call_by_alice (10 ^ 22))\<lparr>currentAccountId := ''test''\<rparr>)
         (HelloNear_init sample_externals) (request ''sub.factory'' None)
        = Inl (AssertionFailed ''Invalid subaccount''))
     = (create_factory_subaccount_and_deploy sample_externals (call_by_alice (10 ^ 22))
         (HelloNear_init sample_externals) (request ''sub'' None)
        = Inl (AssertionFailed ''Invalid subaccount''))"
    using second same by blast
  have "\<forall>d. create_factory_subaccount_and_deploy
               (sample_externals\<lparr>validateAccountId := sample_validateAccountId\<rparr>)
               ((call_by_alice (10 ^ 22))\<lparr>attachedDeposit := d\<rparr>)
               (HelloNear_init sample_externals) (request (replicate 60 (CHR ''a'')) None)
             = Inl (AssertionFailed ''Invalid subaccount'')"
    using third long by blast
  then have d: "create_factory_subaccount_and_deploy sample_externals (call_by_alice (10 ^ 22))
        (HelloNear_init sample_externals) (request (replicate 60 (CHR ''a'')) None)
      = Inl (AssertionFailed ''Invalid subaccount'')"
    using same_ext same_env [of "10 ^ 22"] by metis
  have "\<forall>d. create_factory_subaccount_and_deploy
               (sample_externals\<lparr>validateAccountId := sample_validateAccountId\<rparr>)
               ((call_by_alice (10 ^ 22))\<lparr>attachedDeposit := d\<rparr>)
               (HelloNear_init sample_externals) (request ''Sub'' None)
             = Inl (AssertionFailed ''Invalid subaccount'')"
    using fourth upper by blast
  then have e: "create_factory_subaccount_and_deploy sample_externals (call_by_alice (10 ^ 22))
        (HelloNear_init sample_externals) (request ''Sub'' None)
      = Inl (AssertionFailed ''Invalid subaccount'')"
    using same_ext same_env [of "10 ^ 22"] by metis
  show ?thesis using nv' a b long d upper e same c by blast
qed

text \<open>
  The claim as stated counts every short name containing the separator among the
  rejected ones. The derived name \<open>sub.factory.test\<close> of the short name \<open>sub\<close> under the
  factory \<open>factory.test\<close> is also the derived name of the short name \<open>sub.factory\<close> under
  the factory \<open>test\<close>: that request passes the name check and is dispatched.
\<close>

theorem separator_in_short_name_counterexample:
  "CHR ''.'' \<in> set (name (request ''sub.factory'' None))
   \<and> create_factory_subaccount_and_deploy sample_externals
        ((call_by_alice (10 ^ 22))\<lparr>currentAccountId := ''test''\<rparr>)
        (HelloNear_init sample_externals) (request ''sub.factory'' None)
      \<noteq> Inl (AssertionFailed ''Invalid subaccount'')
   \<and> batch_of (create_factory_subaccount_and_deploy sample_externals
        ((call_by_alice (10 ^ 22))\<lparr>currentAccountId := ''test''\<rparr>)
        (HelloNear_init sample_externals) (request ''sub.factory'' None))
      = Some (NearPromise ''sub.factory.test''
                [CreateAccount,
                 Transfer (10 ^ 22),
                 DeployContract (replicate 1000 (CHR 0x00)),
                 FunctionCall ''init''
                   (sample_serialize (JObject [(''beneficiary'', JString ''bob.test'')]))
                   0 (5 * 10 ^ 12)]
                None)"
proof -
  let ?e = "(call_by_alice (10 ^ 22))\<lparr>currentAccountId := ''test''\<rparr>"
  let ?a = "request ''sub.factory'' None"
  let ?r = "create_factory_subaccount_and_deploy sample_externals ?e
              (HelloNear_init sample_externals) ?a"
  have dot: "CHR ''.'' \<in> set (name ?a)"
    by (simp add: request_def)
  have v: "validateAccountId sample_externals (name ?a @ ''.'' @ currentAccountId ?e)"
    using sample_sub_valid by (simp add: sample_defs)
  have f: "NEAR_PER_STORAGE * int (length (code (HelloNear_init sample_externals)))
             \<le> attachedDeposit ?e"
    by (simp add: sample_defs NEAR_PER_STORAGE_def)
  obtain out where out: "?r = Inr out"
    using create_dispatches [OF v f sample_request_no_key] by blast
  then have passes: "?r \<noteq> Inl (AssertionFailed ''Invalid subaccount'')"
    by simp
  have batch: "batch_of ?r
      = Some (NearPromise ''sub.factory.test''
                [CreateAccount,
                 Transfer (10 ^ 22),
                 DeployContract (replicate 1000 (CHR 0x00)),
                 FunctionCall ''init''
                   (sample_serialize (JObject [(''beneficiary'', JString ''bob.test'')]))
                   0 (5 * 10 ^ 12)]
                None)"
    using v f
    by (simp add: create_defs promise_defs minimumNeeded_def batch_of_def dispatched_def
        NO_DEPOSIT_def TGAS_def Let_def truthy_def sample_defs)
  show ?thesis using dot passes batch by blast
qed

subsection \<open>The callback\<close>

text \<open>
  C4. Given the child account, the user and the attached amount, the callback returns
  \<open>true\<close> and logs a line naming the child account when reading the first promise
  result succeeds, and returns \<open>false\<close> and logs a line naming the child account, the
  amount and the user when reading it throws. The amount is written in decimal, so
  the failure record determines it: with the same account and user, two amounts that
  give the same outcome are equal. In both branches the method body returns a boolean
  and never throws; the decorated method is the body whenever the contract calls itself
  with no deposit, as the scheduled callback does.
\<close>

theorem callback_returns_boolean:
  "(promiseResult e 0 = Inr v \<longrightarrow>
      create_factory_subaccount_and_deploy_callback_body e this a =
        Inr \<lparr>returned = RetBool True,
             logs = [''Correctly created and deployed to '' @ account a],
             state = this\<rparr>)
   \<and> (promiseResult e 0 = Inl err \<longrightarrow>
      create_factory_subaccount_and_deploy_callback_body e this a =
        Inr \<lparr>returned = RetBool False,
             logs = [''Error creating '' @ account a @ '', returning ''
                       @ string_of_bigint (attached a) @ ''y'' @ yocto_sign @ '' to '' @ user a],
             state = this\<rparr>)
   \<and> (\<exists>b l. create_factory_subaccount_and_deploy_callback_body e this a =
                Inr \<lparr>returned = RetBool b, logs = l, state = this\<rparr>)
   \<and> (predecessorAccountId e = currentAccountId e \<and> attachedDeposit e \<le> 0 \<longrightarrow>
        create_factory_subaccount_and_deploy_callback e this a =
          create_factory_subaccount_and_deploy_callback_body e this a)
   \<and> (promiseResult e 0 = Inl err \<and> account a' = account a \<and> user a' = user a
        \<and> create_factory_subaccount_and_deploy_callback_body e this a' =
            create_factory_subaccount_and_deploy_callback_body e this a \<longrightarrow>
        attached a' = attached a)
   \<and> (string_of_bigint i = string_of_bigint j \<longrightarrow> i = j)"
proof -
  have branches:
    "(promiseResult e 0 = Inr v \<longrightarrow>
      create_factory_subaccount_and_deploy_callback_body e this a =
        Inr \<lparr>returned = RetBool True,
             logs = [''Correctly created and deployed to '' @ account a],
             state = this\<rparr>)
   \<and> (promiseResult e 0 = Inl err \<longrightarrow>
      create_factory_subaccount_and_deploy_callback_body e this a =
        Inr \<lparr>returned = RetBool False,
             logs = [''Error creating '' @ account a @ '', returning ''
                       @ string_of_bigint (attached a) @ ''y'' @ yocto_sign @ '' to '' @ user a],
             state = this\<rparr>)
   \<and> (\<exists>b l. create_factory_subaccount_and_deploy_callback_body e this a =
                Inr \<lparr>returned = RetBool b, logs = l, state = this\<rparr>)
   \<and> (predecessorAccountId e = currentAccountId e \<and> attachedDeposit e \<le> 0 \<longrightarrow>
        create_factory_subaccount_and_deploy_callback e this a =
          create_factory_subaccount_and_deploy_callback_body e this a)"
    by (cases "promiseResult e 0") (auto simp: callback_defs call_decorator_def)
  have amount: "promiseResult e 0 = Inl err \<and> account a' = account a \<and> user a' = user a
        \<and> create_factory_subaccount_and_deploy_callback_body e this a' =
            create_factory_subaccount_and_deploy_callback_body e this a \<longrightarrow>
        attached a' = attached a"
  proof
    assume h: "promiseResult e 0 = Inl err \<and> account a' = account a \<and> user a' = user a
        \<and> create_factory_subaccount_and_deploy_callback_body e this a' =
            create_factory_subaccount_and_deploy_callback_body e this a"
    then have thrown: "promiseResult e 0 = Inl err"
      and acc: "account a' = account a"
      and usr: "user a' = user a"
      and eq: "create_factory_subaccount_and_deploy_callback_body e this a' =
                 create_factory_subaccount_and_deploy_callback_body e this a"
      by blast+
    have out: "create_factory_subaccount_and_deploy_callback_body e this x =
        Inr \<lparr>returned = RetBool False,
             logs = [''Error creating '' @ account x @ '', returning ''
                       @ string_of_bigint (attached x) @ ''y'' @ yocto_sign @ '' to '' @ user x],
             state = this\<rparr>" for x
      using thrown by (simp add: callback_defs)
    have "Inr \<lparr>returned = RetBool False,
             logs = [''Error creating '' @ account a @ '', returning ''
                       @ string_of_bigint (attached a') @ ''y'' @ yocto_sign @ '' to '' @ user a],
             state = this\<rparr>
        = (Inr \<lparr>returned = RetBool False,
             logs = [''Error creating '' @ account a @ '', returning ''
                       @ string_of_bigint (attached a) @ ''y'' @ yocto_sign @ '' to '' @ user a],
             state = this\<rparr> :: error + outcome)"
      using eq unfolding out [of a'] out [of a] acc usr .
    then have "string_of_bigint (attached a') = string_of_bigint (attached a)"
      by simp
    then show "attached a' = attached a" by (rule string_of_bigint_inj)
  qed
  have inj: "string_of_bigint i = string_of_bigint j \<longrightarrow> i = j"
    using string_of_bigint_inj by blast
  show ?thesis using branches amount inj by blast
qed

theorem callback_returns_boolean_witness:
  "promiseResult (call_by_factory [] (Successful [])) 0 = Inr []
   \<and> create_factory_subaccount_and_deploy_callback (call_by_factory [] (Successful []))
        \<lparr>code = ''abc''\<rparr> reconcile_args =
      Inr \<lparr>returned = RetBool True,
           logs = [''Correctly created and deployed to sub.factory.test''],
           state = \<lparr>code = ''abc''\<rparr>\<rparr>
   \<and> promiseResult (call_by_factory [] Failed) 0 = Inl PromiseFailed
   \<and> create_factory_subaccount_and_deploy_callback (call_by_factory [] Failed)
        \<lparr>code = ''abc''\<rparr> reconcile_args =
      Inr \<lparr>returned = RetBool False,
           logs = [''Error creating sub.factory.test, returning 10000000000000000000000y''
                     @ yocto_sign @ '' to alice.test''],
           state = \<lparr>code = ''abc''\<rparr>\<rparr>
   \<and> create_factory_subaccount_and_deploy_callback (call_by_factory [] Failed)
        \<lparr>code = ''abc''\<rparr> (reconcile_args\<lparr>attached := 9999\<rparr>) =
      Inr \<lparr>returned = RetBool False,
           logs = [''Error creating sub.factory.test, returning 9999y''
                     @ yocto_sign @ '' to alice.test''],
           state = \<lparr>code = ''abc''\<rparr>\<rparr>
   \<and> create_factory_subaccount_and_deploy_callback_body (call_by_factory [] Failed)
        \<lparr>code = ''abc''\<rparr> (reconcile_args\<lparr>attached := 9999\<rparr>)
      \<noteq> create_factory_subaccount_and_deploy_callback_body (call_by_factory [] Failed)
          \<lparr>code = ''abc''\<rparr> reconcile_args
   \<and> string_of_bigint 9999 \<noteq> string_of_bigint (10 ^ 22)
   \<and> string_of_bigint (- 5) = ''-5''
   \<and> string_of_bigint 0 = ''0''"
proof -
  have ok: "promiseResult (call_by_factory [] (Successful [])) 0 = Inr []"
    by (simp add: promiseResult_def call_by_factory_def)
  have bad: "promiseResult (call_by_factory [] Failed) 0 = Inl PromiseFailed"
    by (simp add: promiseResult_def call_by_factory_def)
  have self: "predecessorAccountId (call_by_factory [] r) = currentAccountId (call_by_factory [] r)
                \<and> attachedDeposit (call_by_factory [] r) \<le> 0" for r
    by (simp add: call_by_factory_def)
  have amount: "string_of_bigint (attached reconcile_args) = ''10000000000000000000000''"
    using digits_needed_1000 by (simp add: reconcile_args_def)
  have amount': "string_of_bigint (attached (reconcile_args\<lparr>attached := 9999\<rparr>)) = ''9999''"
    by (simp add: string_of_bigint_def string_of_nat.simps digit_char_def)
  note good = callback_returns_boolean
                [where e = "call_by_factory [] (Successful [])" and v = "[]"
                   and this = "\<lparr>code = ''abc''\<rparr>" and a = reconcile_args]
  note fail = callback_returns_boolean
                [where e = "call_by_factory [] Failed" and err = PromiseFailed
                   and this = "\<lparr>code = ''abc''\<rparr>" and a = reconcile_args
                   and a' = "reconcile_args\<lparr>attached := 9999\<rparr>"
                   and i = 9999 and j = "10 ^ 22"]
  note fail' = callback_returns_boolean
                [where e = "call_by_factory [] Failed" and err = PromiseFailed
                   and this = "\<lparr>code = ''abc''\<rparr>" and a = "reconcile_args\<lparr>attached := 9999\<rparr>"
                   and a' = "reconcile_args\<lparr>attached := 9999\<rparr>"]
  have r1: "create_factory_subaccount_and_deploy_callback (call_by_factory [] (Successful []))
        \<lparr>code = ''abc''\<rparr> reconcile_args =
      Inr \<lparr>returned = RetBool True,
           logs = [''Correctly created and deployed to sub.factory.test''],
           state = \<lparr>code = ''abc''\<rparr>\<rparr>"
    using good ok self by (simp add: reconcile_args_def)
  have r2: "create_factory_subaccount_and_deploy_callback (call_by_factory [] Failed)
        \<lparr>code = ''abc''\<rparr> reconcile_args =
      Inr \<lparr>returned = RetBool False,
           logs = [''Error creating sub.factory.test, returning 10000000000000000000000y''
                     @ yocto_sign @ '' to alice.test''],
           state = \<lparr>code = ''abc''\<rparr>\<rparr>"
    using fail bad self amount by (simp add: reconcile_args_def)
  have r3: "create_factory_subaccount_and_deploy_callback (call_by_factory [] Failed)
        \<lparr>code = ''abc''\<rparr> (reconcile_args\<lparr>attached := 9999\<rparr>) =
      Inr \<lparr>returned = RetBool False,
           logs = [''Error creating sub.factory.test, returning 9999y''
                     @ yocto_sign @ '' to alice.test''],
           state = \<lparr>code = ''abc''\<rparr>\<rparr>"
    using fail' bad self amount' by (simp add: reconcile_args_def)
  have differ: "attached (reconcile_args\<lparr>attached := 9999\<rparr>) \<noteq> attached reconcile_args"
    by (simp add: reconcile_args_def)
  have same_names: "account (reconcile_args\<lparr>attached := 9999\<rparr>) = account reconcile_args
                    \<and> user (reconcile_args\<lparr>attached := 9999\<rparr>) = user reconcile_args"
    by simp
  have r4: "create_factory_subaccount_and_deploy_callback_body (call_by_factory [] Failed)
        \<lparr>code = ''abc''\<rparr> (reconcile_args\<lparr>attached := 9999\<rparr>)
      \<noteq> create_factory_subaccount_and_deploy_callback_body (call_by_factory [] Failed)
          \<lparr>code = ''abc''\<rparr> reconcile_args"
    using fail bad same_names differ by blast
  have neq: "(9999 :: int) \<noteq> 10 ^ 22" by simp
  have r5: "string_of_bigint 9999 \<noteq> string_of_bigint (10 ^ 22)"
    using fail neq by blast
  have r6: "string_of_bigint (- 5) = ''-5''"
    by (simp add: string_of_bigint_def string_of_nat.simps digit_char_def)
  have r7: "string_of_bigint 0 = ''0''"
    by (simp add: string_of_bigint_def string_of_nat.simps digit_char_def)
  show ?thesis using ok bad r1 r2 r3 r4 r5 r6 r7 by blast
qed

text \<open>
  C5. On the failure branch of the callback nothing is handed to the platform, so no
  transfer back to the user is issued: the call returns \<open>false\<close>, its only effect is the
  log line naming the amount and the user, and the contract state is unchanged.
\<close>

theorem failure_branch_only_logs:
  assumes "promiseResult e 0 = Inl err"
  shows "create_factory_subaccount_and_deploy_callback_body e this a =
           Inr \<lparr>returned = RetBool False,
                logs = [''Error creating '' @ account a @ '', returning ''
                          @ string_of_bigint (attached a) @ ''y'' @ yocto_sign @ '' to '' @ user a],
                state = this\<rparr>
         \<and> dispatched (create_factory_subaccount_and_deploy_callback_body e this a) = None
         \<and> dispatched (create_factory_subaccount_and_deploy_callback e this a) = None
         \<and> commit this (create_factory_subaccount_and_deploy_callback e this a) = this"
  using assms by (simp add: callback_defs call_decorator_def dispatched_def commit_def)

theorem failure_branch_only_logs_witness:
  "promiseResult (call_by_factory [] Failed) 0 = Inl PromiseFailed
   \<and> dispatched (create_factory_subaccount_and_deploy_callback (call_by_factory [] Failed)
        \<lparr>code = ''abc''\<rparr> reconcile_args) = None
   \<and> commit \<lparr>code = ''abc''\<rparr>
        (create_factory_subaccount_and_deploy_callback (call_by_factory [] Failed)
           \<lparr>code = ''abc''\<rparr> reconcile_args) = \<lparr>code = ''abc''\<rparr>"
proof -
  have bad: "promiseResult (call_by_factory [] Failed) 0 = Inl PromiseFailed"
    by (simp add: promiseResult_def call_by_factory_def)
  show ?thesis
    using failure_branch_only_logs [OF bad, of "\<lparr>code = ''abc''\<rparr>" reconcile_args] bad
    by blast
qed

subsection \<open>The continuation\<close>

text \<open>
  C6. For every request that is dispatched, the returned promise is a call of
  \<open>create_factory_subaccount_and_deploy_callback\<close> on the factory's own account, chained
  with \<open>then\<close> behind the batch against the child account, with no deposit and 5 Tgas;
  its serialised arguments are exactly the derived child name, the predecessor of the
  call and the attached deposit, as values fixed when the promise is built.
\<close>

theorem continuation_attached:
  assumes "create_factory_subaccount_and_deploy ext e this a = Inr out"
  shows "\<exists>batch. returned out =
           RetPromise (NearPromise (currentAccountId e)
             [FunctionCall ''create_factory_subaccount_and_deploy_callback''
                (serialize ext
                   (JObject [(''account'', JString (name a @ ''.'' @ currentAccountId e)),
                             (''user'', JString (predecessorAccountId e)),
                             (''attached'', JBigInt (attachedDeposit e))]))
                0 (5 * 10 ^ 12)]
             (Some batch))
           \<and> account_id batch = name a @ ''.'' @ currentAccountId e
           \<and> after batch = None
           \<and> batch_of (create_factory_subaccount_and_deploy ext e this a) = Some batch"
  using assms
  by (auto simp: create_defs promise_defs batch_of_def dispatched_def
      NO_DEPOSIT_def TGAS_def Let_def split: if_splits option.splits)

theorem continuation_attached_witness:
  "\<exists>out batch.
     create_factory_subaccount_and_deploy sample_externals (call_by_alice (10 ^ 22))
       (HelloNear_init sample_externals) (request ''sub'' None) = Inr out
     \<and> returned out =
         RetPromise (NearPromise ''factory.test''
           [FunctionCall ''create_factory_subaccount_and_deploy_callback''
              (sample_serialize
                 (JObject [(''account'', JString ''sub.factory.test''),
                           (''user'', JString ''alice.test''),
                           (''attached'', JBigInt (10 ^ 22))]))
              0 (5 * 10 ^ 12)]
           (Some batch))
     \<and> account_id batch = ''sub.factory.test''"
proof -
  obtain out where out:
    "create_factory_subaccount_and_deploy sample_externals (call_by_alice (10 ^ 22))
       (HelloNear_init sample_externals) (request ''sub'' None) = Inr out"
    using create_dispatches [OF sample_request_valid sample_request_funded sample_request_no_key]
    by blast
  from continuation_attached [OF out] obtain batch where
    ret: "returned out =
           RetPromise (NearPromise (currentAccountId (call_by_alice (10 ^ 22)))
             [FunctionCall ''create_factory_subaccount_and_deploy_callback''
                (serialize sample_externals
                   (JObject [(''account'', JString (name (request ''sub'' None) @ ''.''
                                @ currentAccountId (call_by_alice (10 ^ 22)))),
                             (''user'', JString (predecessorAccountId (call_by_alice (10 ^ 22)))),
                             (''attached'', JBigInt (attachedDeposit (call_by_alice (10 ^ 22))))]))
                0 (5 * 10 ^ 12)]
             (Some batch))"
    and acc: "account_id batch = name (request ''sub'' None) @ ''.''
                @ currentAccountId (call_by_alice (10 ^ 22))"
    by blast
  have ret': "returned out =
         RetPromise (NearPromise ''factory.test''
           [FunctionCall ''create_factory_subaccount_and_deploy_callback''
              (sample_serialize
                 (JObject [(''account'', JString ''sub.factory.test''),
                           (''user'', JString ''alice.test''),
                           (''attached'', JBigInt (10 ^ 22))]))
              0 (5 * 10 ^ 12)]
           (Some batch))"
    using ret by (simp add: sample_defs)
  have acc': "account_id batch = ''sub.factory.test''"
    using acc by (simp add: sample_defs)
  show ?thesis using out ret' acc' by blast
qed

subsection \<open>The minimum funding\<close>

text \<open>
  C7. For every code length \<open>L\<close> the minimum funding is \<open>NEAR_PER_STORAGE * L\<close>, with
  \<open>NEAR_PER_STORAGE\<close> the constant \<open>10 ^ 19\<close>; it does not decrease when \<open>L\<close> grows. It
  is the threshold the call uses: a request with a valid name throws the funding error
  exactly when the deposit is below it. The computation has no effect of its own: a
  call that returns leaves the state as it was and logs nothing.
\<close>

theorem minimum_funding_linear_monotone:
  "minimumNeeded L = NEAR_PER_STORAGE * int L
   \<and> NEAR_PER_STORAGE = 10 ^ 19
   \<and> (L \<le> L' \<longrightarrow> minimumNeeded L \<le> minimumNeeded L')
   \<and> (validateAccountId ext (name a @ ''.'' @ currentAccountId e) \<longrightarrow>
        (attachedDeposit e < minimumNeeded (length (code this))) =
        (create_factory_subaccount_and_deploy ext e this a =
           Inl (AssertionFailed (''Attach at least ''
                  @ string_of_bigint (minimumNeeded (length (code this)))
                  @ '' y'' @ yocto_sign))))
   \<and> (\<forall>out. create_factory_subaccount_and_deploy ext e this a = Inr out \<longrightarrow>
          state out = this \<and> logs out = [])"
proof (intro conjI)
  show "minimumNeeded L = NEAR_PER_STORAGE * int L"
    by (simp add: minimumNeeded_def)
  show "NEAR_PER_STORAGE = 10 ^ 19"
    by (simp add: NEAR_PER_STORAGE_def)
  show "L \<le> L' \<longrightarrow> minimumNeeded L \<le> minimumNeeded L'"
    by (simp add: minimumNeeded_def NEAR_PER_STORAGE_def)
  show "validateAccountId ext (name a @ ''.'' @ currentAccountId e) \<longrightarrow>
        (attachedDeposit e < minimumNeeded (length (code this))) =
        (create_factory_subaccount_and_deploy ext e this a =
           Inl (AssertionFailed (''Attach at least ''
                  @ string_of_bigint (minimumNeeded (length (code this)))
                  @ '' y'' @ yocto_sign)))"
    by (auto simp: create_defs Let_def split: option.splits)
  show "\<forall>out. create_factory_subaccount_and_deploy ext e this a = Inr out \<longrightarrow>
          state out = this \<and> logs out = []"
    by (auto simp: create_defs Let_def split: option.splits if_splits)
qed

theorem minimum_funding_linear_monotone_witness:
  "(1000 :: nat) \<le> 2000
   \<and> minimumNeeded 1000 \<le> minimumNeeded 2000
   \<and> minimumNeeded 1000 = 10 ^ 22
   \<and> validateAccountId sample_externals ''sub.factory.test''
   \<and> \<not> attachedDeposit (call_by_alice (10 ^ 22))
          < minimumNeeded (length (code (HelloNear_init sample_externals)))
   \<and> create_factory_subaccount_and_deploy sample_externals (call_by_alice (10 ^ 22))
        (HelloNear_init sample_externals) (request ''sub'' None)
      \<noteq> Inl (AssertionFailed (''Attach at least ''
               @ string_of_bigint (minimumNeeded (length (code (HelloNear_init sample_externals))))
               @ '' y'' @ yocto_sign))
   \<and> (\<exists>out. create_factory_subaccount_and_deploy sample_externals (call_by_alice (10 ^ 22))
              (HelloNear_init sample_externals) (request ''sub'' None) = Inr out
            \<and> state out = HelloNear_init sample_externals \<and> logs out = [])"
proof -
  obtain out where out:
    "create_factory_subaccount_and_deploy sample_externals (call_by_alice (10 ^ 22))
       (HelloNear_init sample_externals) (request ''sub'' None) = Inr out"
    using create_dispatches [OF sample_request_valid sample_request_funded sample_request_no_key]
    by blast
  have v: "validateAccountId sample_externals ''sub.factory.test''"
    using sample_sub_valid by (simp add: sample_defs)
  have le: "(1000 :: nat) \<le> 2000" by simp
  have enough: "\<not> attachedDeposit (call_by_alice (10 ^ 22))
          < minimumNeeded (length (code (HelloNear_init sample_externals)))"
    using sample_request_funded by (simp add: minimumNeeded_def)
  note inst = minimum_funding_linear_monotone
               [where L = 1000 and L' = 2000 and ext = sample_externals
                  and a = "request ''sub'' None" and e = "call_by_alice (10 ^ 22)"
                  and this = "HelloNear_init sample_externals"]
  have mono: "minimumNeeded 1000 \<le> minimumNeeded 2000" using inst le by blast
  have val: "minimumNeeded 1000 = 10 ^ 22" using inst by simp
  have pure: "state out = HelloNear_init sample_externals \<and> logs out = []"
    using inst out by blast
  have funded: "create_factory_subaccount_and_deploy sample_externals (call_by_alice (10 ^ 22))
        (HelloNear_init sample_externals) (request ''sub'' None)
      \<noteq> Inl (AssertionFailed (''Attach at least ''
               @ string_of_bigint (minimumNeeded (length (code (HelloNear_init sample_externals))))
               @ '' y'' @ yocto_sign))"
    using inst sample_request_valid [of None "10 ^ 22"] enough by blast
  show ?thesis using le mono val v enough funded out pure by blast
qed

subsection \<open>The stored code\<close>



text \<open>
  C9. After a call of \<open>update_stored_contract\<close> with input \<open>b\<close> that returns, \<open>get_code\<close>
  returns exactly \<open>b\<close>; after two such calls in sequence with inputs \<open>b1\<close> and \<open>b2\<close> the
  stored code is exactly \<open>b2\<close>. Every non-empty \<open>b\<close> sent by the factory to itself with
  no deposit is stored.
\<close>

theorem replace_then_read_roundtrip:
  "(update_stored_contract e this = Inr out \<longrightarrow>
      get_code e' (commit this (update_stored_contract e this)) =
        Inr \<lparr>returned = RetString (input e), logs = [],
             state = commit this (update_stored_contract e this)\<rparr>)
   \<and> (update_stored_contract e1 this = Inr out1
        \<and> update_stored_contract e2 (commit this (update_stored_contract e1 this)) = Inr out2 \<longrightarrow>
        commit (commit this (update_stored_contract e1 this))
          (update_stored_contract e2 (commit this (update_stored_contract e1 this)))
        = \<lparr>code = input e2\<rparr>)
   \<and> (predecessorAccountId e = currentAccountId e \<and> attachedDeposit e \<le> 0 \<and> input e \<noteq> [] \<longrightarrow>
        (\<exists>r. update_stored_contract e this = Inr r))"
  by (auto simp: update_defs get_code_def commit_def Let_def split: if_splits)

theorem replace_then_read_roundtrip_witness:
  "(\<exists>out. update_stored_contract (call_by_factory ''new'' NotReady) \<lparr>code = ''old''\<rparr> = Inr out)
   \<and> get_code (call_by_alice 0)
        (commit \<lparr>code = ''old''\<rparr>
           (update_stored_contract (call_by_factory ''new'' NotReady) \<lparr>code = ''old''\<rparr>)) =
      Inr \<lparr>returned = RetString ''new'', logs = [], state = \<lparr>code = ''new''\<rparr>\<rparr>
   \<and> commit
        (commit \<lparr>code = ''old''\<rparr>
           (update_stored_contract (call_by_factory ''new'' NotReady) \<lparr>code = ''old''\<rparr>))
        (update_stored_contract (call_by_factory ''newer'' NotReady)
           (commit \<lparr>code = ''old''\<rparr>
              (update_stored_contract (call_by_factory ''new'' NotReady) \<lparr>code = ''old''\<rparr>)))
      = \<lparr>code = ''newer''\<rparr>"
proof -
  have self: "predecessorAccountId (call_by_factory i NotReady)
                = currentAccountId (call_by_factory i NotReady)
              \<and> attachedDeposit (call_by_factory i NotReady) \<le> 0" for i
    by (simp add: call_by_factory_def)
  have inp: "input (call_by_factory i NotReady) = i" for i
    by (simp add: call_by_factory_def)
  let ?e1 = "call_by_factory ''new'' NotReady"
  let ?e2 = "call_by_factory ''newer'' NotReady"
  let ?s0 = "\<lparr>code = ''old''\<rparr>"
  let ?s1 = "commit ?s0 (update_stored_contract ?e1 ?s0)"
  have "\<exists>r. update_stored_contract ?e1 ?s0 = Inr r"
    using replace_then_read_roundtrip [of ?e1 ?s0] self [of "''new''"] inp [of "''new''"]
    by simp
  then obtain out1 where out1: "update_stored_contract ?e1 ?s0 = Inr out1" ..
  have "\<exists>r. update_stored_contract ?e2 ?s1 = Inr r"
    using replace_then_read_roundtrip [of ?e2 ?s1] self [of "''newer''"] inp [of "''newer''"]
    by simp
  then obtain out2 where out2: "update_stored_contract ?e2 ?s1 = Inr out2" ..
  note inst = replace_then_read_roundtrip
                [of ?e1 ?s0 out1 "call_by_alice 0" ?e1 out1 ?e2 out2]
  have s1: "?s1 = \<lparr>code = ''new''\<rparr>"
    using out1 inp [of "''new''"]
    by (auto simp: update_defs commit_def Let_def split: if_splits)
  have read: "get_code (call_by_alice 0) ?s1 =
      Inr \<lparr>returned = RetString ''new'', logs = [], state = \<lparr>code = ''new''\<rparr>\<rparr>"
    using inst out1 inp [of "''new''"] s1 by simp
  have twice: "commit ?s1 (update_stored_contract ?e2 ?s1) = \<lparr>code = ''newer''\<rparr>"
    using inst out1 out2 inp [of "''newer''"] by simp
  show ?thesis using out1 read twice by blast
qed

subsection \<open>The stored code is never empty\<close>

text \<open>
  C10. When the default contract included at build time is non-empty, the stored code
  is non-empty in every state the contract reaches, from the initial state through any
  sequence of calls of its four methods in any call contexts: only
  \<open>update_stored_contract\<close> writes \<open>code\<close>, and it rejects an empty input first. So the
  minimum funding is positive in every reachable state.
\<close>

theorem stored_code_never_empty:
  assumes "DEFAULT_CONTRACT ext \<noteq> []"
  shows "code (HelloNear_init ext) \<noteq> []
         \<and> code (run ext (HelloNear_init ext) calls) \<noteq> []
         \<and> 0 < minimumNeeded (length (code (run ext (HelloNear_init ext) calls)))"
proof -
  have init: "code (HelloNear_init ext) \<noteq> []"
    using assms by (simp add: HelloNear_init_def)
  have "code (run ext (HelloNear_init ext) calls) \<noteq> []"
    by (rule run_keeps_nonempty [OF init])
  then show ?thesis
    using init by (simp add: minimumNeeded_def NEAR_PER_STORAGE_def)
qed

theorem stored_code_never_empty_witness:
  "DEFAULT_CONTRACT sample_externals \<noteq> []
   \<and> code (run sample_externals (HelloNear_init sample_externals)
        [(call_by_factory [] NotReady, Update_stored_contract),
         (call_by_factory ''new'' NotReady, Update_stored_contract),
         (call_by_alice 0, Create_factory_subaccount_and_deploy (request ''sub'' None)),
         (call_by_factory [] Failed, Create_factory_subaccount_and_deploy_callback reconcile_args),
         (call_by_alice 0, Get_code)]) \<noteq> []"
proof -
  have d: "DEFAULT_CONTRACT sample_externals \<noteq> []"
    by (simp add: sample_externals_def)
  show ?thesis
    using stored_code_never_empty [OF d] d by blast
qed

end
